theory Spec2Isabelle
  imports Main
begin

section \<open>Environment configuration loader (package environment)\<close>

text \<open>
  A shallow embedding of \<^verbatim>\<open>environment.go\<close>: the \<^verbatim>\<open>.env\<close> file parser
  (\<^verbatim>\<open>loadEnv\<close>, \<^verbatim>\<open>processValue\<close>, \<^verbatim>\<open>expandEnvVars\<close>), the merge loop of
  \<^verbatim>\<open>fillSpecification\<close> and the reflective populator (\<^verbatim>\<open>parseEnv\<close>,
  \<^verbatim>\<open>getValueFromEnvOrFile\<close>, \<^verbatim>\<open>setValue\<close>).

  Modelling decisions.
  \<^item> A Go \<^verbatim>\<open>string\<close> is a byte list (\<^typ>\<open>string\<close>). White space is the ASCII white space
    of \<^verbatim>\<open>strings.TrimSpace\<close>; the non-ASCII Unicode spaces are not modelled.
  \<^item> A \<^verbatim>\<open>map[string]string\<close> is a map \<^typ>\<open>string \<rightharpoonup> string\<close>.
  \<^item> Returned errors and run-time panics are values of the type \<open>error\<close>; every function that
    can fail returns \<open>error + 'a\<close> with \<open>Inl\<close> for the failure.
  \<^item> What the code reads from outside (process environment, file system) and the library
    routines whose grammar is not part of this package (\<^verbatim>\<open>time.ParseDuration\<close>,
    \<^verbatim>\<open>json.Unmarshal\<close>, \<^verbatim>\<open>filepath.Clean\<close>, the \<^verbatim>\<open>ParseEnv\<close> methods of the caller's types)
    are fields of the record \<open>world\<close>, passed to every function that uses them.
  \<^item> A file is what \<^verbatim>\<open>bufio.Scanner\<close> delivers: the lines in order, the error
    \<^verbatim>\<open>scanner.Err()\<close> reports at the end, and the error of \<^verbatim>\<open>Close\<close>.
\<close>

subsection \<open>Errors\<close>

datatype os_error = OsError (isNotExist: bool) (osMessage: string)

datatype num_error = ErrSyntax | ErrRange

datatype error =
    DoesNotExist string
  | OpenError os_error
  | ScanError string
  | FatalClose string
  | InvalidName string
  | MissingRequired string
  | ParseIntError string num_error
  | ParseBoolError string
  | LibError string
  | UnsupportedType string
  | CustomError string
  | SettingField string error
  | LoadingEnvFile error
  | FieldLoadEnvironment error
  | PanicIndex nat nat
  | PanicSliceBounds nat nat
  | PanicReflect string

text \<open>The text of the errors this package formats itself (\<^verbatim>\<open>fmt.Errorf\<close>).\<close>

fun errorText :: "error \<Rightarrow> string" where
  "errorText (DoesNotExist filename) = filename @ '' does not exist''"
| "errorText (OpenError e) = osMessage e"
| "errorText (ScanError m) = m"
| "errorText (FatalClose m) = ''failed to close env file: '' @ m"
| "errorText (InvalidName k) = ''invalid environment variable name: '' @ k"
| "errorText (MissingRequired t) = ''required environment variable '' @ t @ '' is missing''"
| "errorText (ParseIntError s ErrSyntax) =
     ''strconv.ParseInt: parsing '' @ [CHR 0x22] @ s @ [CHR 0x22] @ '': invalid syntax''"
| "errorText (ParseIntError s ErrRange) =
     ''strconv.ParseInt: parsing '' @ [CHR 0x22] @ s @ [CHR 0x22] @ '': value out of range''"
| "errorText (ParseBoolError s) =
     ''strconv.ParseBool: parsing '' @ [CHR 0x22] @ s @ [CHR 0x22] @ '': invalid syntax''"
| "errorText (LibError m) = m"
| "errorText (UnsupportedType k) = ''unsupported type '' @ k"
| "errorText (CustomError m) = m"
| "errorText (SettingField n e) = ''error setting field '' @ n @ '': '' @ errorText e"
| "errorText (LoadingEnvFile e) = ''error loading .env file: '' @ errorText e"
| "errorText (FieldLoadEnvironment e) = ''field load environment: '' @ errorText e"
| "errorText (PanicIndex i n) = ''runtime error: index out of range''"
| "errorText (PanicSliceBounds lo hi) = ''runtime error: slice bounds out of range''"
| "errorText (PanicReflect m) = m"

subsection \<open>Strings\<close>

definition backslash :: char where "backslash = CHR 0x5C"
definition dquote :: char where "dquote = CHR 0x22"
definition squote :: char where "squote = CHR 0x27"

definition isSpace :: "char \<Rightarrow> bool" where
  "isSpace c = (c = CHR '' '' \<or> c = CHR 0x09 \<or> c = CHR 0x0A \<or> c = CHR 0x0B
                \<or> c = CHR 0x0C \<or> c = CHR 0x0D)"

definition TrimSpace :: "string \<Rightarrow> string" where
  "TrimSpace s = rev (dropWhile isSpace (rev (dropWhile isSpace s)))"

definition HasPrefix :: "string \<Rightarrow> string \<Rightarrow> bool" where
  "HasPrefix s p = (take (length p) s = p)"

definition HasSuffix :: "string \<Rightarrow> string \<Rightarrow> bool" where
  "HasSuffix s p = (length p \<le> length s \<and> drop (length s - length p) s = p)"

definition TrimSuffix :: "string \<Rightarrow> string \<Rightarrow> string" where
  "TrimSuffix s p = (if HasSuffix s p then take (length s - length p) s else s)"

text \<open>\<^verbatim>\<open>strings.SplitN(line, "=", 2)\<close>: one part when there is no \<^verbatim>\<open>=\<close>, else the text
  before the first \<^verbatim>\<open>=\<close> and everything after it.\<close>

definition SplitN2 :: "string \<Rightarrow> string list" where
  "SplitN2 line =
     (if CHR ''='' \<in> set line
      then [takeWhile (\<lambda>c. c \<noteq> CHR ''='') line, tl (dropWhile (\<lambda>c. c \<noteq> CHR ''='') line)]
      else [line])"

text \<open>Go's \<^verbatim>\<open>s[i]\<close> and \<^verbatim>\<open>s[lo:hi]\<close>, with the bounds checks of the run time.\<close>

definition index :: "string \<Rightarrow> nat \<Rightarrow> error + char" where
  "index s i = (if i < length s then Inr (s ! i) else Inl (PanicIndex i (length s)))"

definition slice :: "string \<Rightarrow> nat \<Rightarrow> nat \<Rightarrow> error + string" where
  "slice s lo hi =
     (if lo \<le> hi \<and> hi \<le> length s then Inr (take (hi - lo) (drop lo s))
      else Inl (PanicSliceBounds lo hi))"

subsection \<open>Identifiers: the two regular expressions\<close>

definition isLetter :: "char \<Rightarrow> bool" where
  "isLetter c = (let n = (of_char c :: nat) in (97 \<le> n \<and> n \<le> 122) \<or> (65 \<le> n \<and> n \<le> 90))"

definition isDigit :: "char \<Rightarrow> bool" where
  "isDigit c = (let n = (of_char c :: nat) in 48 \<le> n \<and> n \<le> 57)"

definition isNameStart :: "char \<Rightarrow> bool" where
  "isNameStart c = (isLetter c \<or> c = CHR ''_'')"

definition isNameChar :: "char \<Rightarrow> bool" where
  "isNameChar c = (isLetter c \<or> isDigit c \<or> c = CHR ''_'')"

text \<open>\<^verbatim>\<open>validEnvVarRegex = ^[a-zA-Z_][a-zA-Z0-9_]*$\<close>.\<close>

definition validEnvVar :: "string \<Rightarrow> bool" where
  "validEnvVar key = (case key of [] \<Rightarrow> False | c # cs \<Rightarrow> isNameStart c \<and> list_all isNameChar cs)"

text \<open>\<^verbatim>\<open>envVarRegex = \${([a-zA-Z_][a-zA-Z0-9_]*)}\<close> tried at the head of a string: the
  matched text and what follows it. The name is the longest run of name characters, and the
  closing brace must come right after it.\<close>

definition matchEnvVar :: "string \<Rightarrow> (string \<times> string) option" where
  "matchEnvVar s =
     (case s of
        d # b # c # cs \<Rightarrow>
          if d = CHR ''$'' \<and> b = CHR ''{'' \<and> isNameStart c
          then (case dropWhile isNameChar cs of
                  e # rest \<Rightarrow>
                    if e = CHR ''}''
                    then Some (d # b # c # takeWhile isNameChar cs @ [e], rest)
                    else None
                | [] \<Rightarrow> None)
          else None
      | _ \<Rightarrow> None)"

subsection \<open>processValue\<close>

text \<open>\<^verbatim>\<open>strings.NewReplacer(`\n`, "\n", `\t`, "\t", `\r`, "\r", `\\`, `\`).Replace\<close>: one pass
  from the left, no overlapping matches, replaced text is not looked at again.\<close>

fun replaceEscapes :: "string \<Rightarrow> string" where
  "replaceEscapes (b # c # cs) =
     (if b = backslash \<and> c = CHR ''n'' then CHR 0x0A # replaceEscapes cs
      else if b = backslash \<and> c = CHR ''t'' then CHR 0x09 # replaceEscapes cs
      else if b = backslash \<and> c = CHR ''r'' then CHR 0x0D # replaceEscapes cs
      else if b = backslash \<and> c = backslash then backslash # replaceEscapes cs
      else b # replaceEscapes (c # cs))"
| "replaceEscapes cs = cs"

definition processValue :: "string \<Rightarrow> error + string" where
  "processValue v =
     (if v = [] then Inr v
      else
        let v = replaceEscapes v in
        case index v 0 of
          Inl e \<Rightarrow> Inl e
        | Inr quote \<Rightarrow>
            if quote = dquote \<or> quote = squote
            then (case index v (length v - 1) of
                    Inl e \<Rightarrow> Inl e
                  | Inr l \<Rightarrow> if l = quote then slice v 1 (length v - 1) else Inr v)
            else Inr v)"

subsection \<open>Target records: what reflection sees\<close>

text \<open>The three tags of a struct field; \<^verbatim>\<open>Tag.Get\<close> gives the empty string for an absent tag.\<close>

record structField =
  fieldName :: string
  tagEnv :: string
  tagDefault :: string
  tagRequired :: string

datatype int_kind = KInt | KInt8 | KInt16 | KInt32 | KInt64

text \<open>A \<^verbatim>\<open>reflect.Value\<close>: the kind (the constructor), what the type adds to it, and the
  content. \<open>VDuration\<close> is kind Int64 with type \<^verbatim>\<open>time.Duration\<close>; \<open>VSlice\<close> carries a
  value of its element type, from which \<^verbatim>\<open>reflect.MakeSlice\<close> makes the new elements;
  \<open>VMap\<close> is \<^verbatim>\<open>map[string]string\<close> and \<open>VMapOther\<close> any other map type; \<open>VStruct\<close> carries the
  name of the type when its pointer type implements \<^verbatim>\<open>CustomParser\<close>; \<open>VOther\<close> is any other
  kind, with the kind's name. Fields are exported and addressable.\<close>

datatype "value" =
    VString string
  | VInt int_kind int
  | VDuration int
  | VBool bool
  | VSlice "value" "value list"
  | VMap "(string \<times> string) list"
  | VMapOther string
  | VStruct "string option" "(structField \<times> value) list"
  | VOther string

subsection \<open>The world outside the package\<close>

record envFile =
  scanLines :: "string list"
  scanErr :: "string option"
  closeErr :: "string option"

record world =
  lookupEnv :: "string \<rightharpoonup> string"
  filepathClean :: "string \<Rightarrow> string"
  osOpen :: "string \<Rightarrow> os_error + envFile"
  parseDuration :: "string \<Rightarrow> string + int"
  jsonUnmarshal :: "string \<Rightarrow> string + (string \<times> string) list"
  parseEnvMethod :: "string \<Rightarrow> string \<Rightarrow> value \<Rightarrow> string + value"

text \<open>\<^verbatim>\<open>os.Getenv\<close>: the empty string for a variable that is not set.\<close>

definition Getenv :: "world \<Rightarrow> string \<Rightarrow> string" where
  "Getenv w k = (case lookupEnv w k of None \<Rightarrow> [] | Some v \<Rightarrow> v)"

text \<open>Panics and \<^verbatim>\<open>log.Fatalf\<close> are not error values: no \<^verbatim>\<open>fmt.Errorf\<close> wraps them.\<close>

fun isAbort :: "error \<Rightarrow> bool" where
  "isAbort (FatalClose m) = True"
| "isAbort (PanicIndex i n) = True"
| "isAbort (PanicSliceBounds lo hi) = True"
| "isAbort (PanicReflect m) = True"
| "isAbort e = False"

definition wrap :: "(error \<Rightarrow> error) \<Rightarrow> error \<Rightarrow> error" where
  "wrap f e = (if isAbort e then e else f e)"

subsection \<open>expandEnvVars\<close>

text \<open>The function literal given to \<^verbatim>\<open>ReplaceAllStringFunc\<close>.\<close>

definition expandMatch :: "world \<Rightarrow> (string \<rightharpoonup> string) \<Rightarrow> string \<Rightarrow> string" where
  "expandMatch w envVars m =
     (let varName = take (length m - 1 - 2) (drop 2 m) in
      case envVars varName of
        Some val \<Rightarrow> val
      | None \<Rightarrow> (case lookupEnv w varName of Some val \<Rightarrow> val | None \<Rightarrow> m))"

text \<open>\<^verbatim>\<open>ReplaceAllStringFunc\<close>: leftmost matches, not overlapping; the text between them is
  copied and the replacement is not scanned again.\<close>

function expandEnvVars :: "world \<Rightarrow> string \<Rightarrow> (string \<rightharpoonup> string) \<Rightarrow> string" where
  "expandEnvVars w v envVars =
     (case v of
        [] \<Rightarrow> []
      | c # cs \<Rightarrow>
          (case matchEnvVar v of
             Some (m, rest) \<Rightarrow> expandMatch w envVars m @ expandEnvVars w rest envVars
           | None \<Rightarrow> c # expandEnvVars w cs envVars))"
  by pat_completeness auto
termination
proof (relation "measure (\<lambda>(w, v, envVars). length v)")
  show "wf (measure (\<lambda>(w, v, envVars). length v))" by simp
next
  fix w :: world and v :: string and envVars :: "string \<rightharpoonup> string"
    and c cs x2 m rest
  assume "v = c # cs" and "matchEnvVar v = Some x2" and "(m, rest) = x2"
  then have "matchEnvVar v = Some (m, rest)" by simp
  then obtain d b c' cs' where v: "v = d # b # c' # cs'"
    and r: "dropWhile isNameChar cs' = CHR ''}'' # rest"
    by (auto simp: matchEnvVar_def split: list.splits if_splits)
  have "length (dropWhile isNameChar cs') \<le> length cs'"
    by (rule length_dropWhile_le)
  with r v show "((w, rest, envVars), (w, v, envVars)) \<in> measure (\<lambda>(w, v, envVars). length v)"
    by simp
next
  fix w :: world and v :: string and envVars :: "string \<rightharpoonup> string" and c cs
  assume "v = c # cs"
  then show "((w, cs, envVars), (w, v, envVars)) \<in> measure (\<lambda>(w, v, envVars). length v)"
    by simp
qed

subsection \<open>loadEnv\<close>

record loadState =
  vars :: "string \<rightharpoonup> string"
  buffer :: string
  multiline :: bool

text \<open>The body of the \<^verbatim>\<open>for scanner.Scan()\<close> loop, on the text of one line.\<close>

definition loadLine :: "world \<Rightarrow> loadState \<Rightarrow> string \<Rightarrow> error + loadState" where
  "loadLine w st ln =
     (let line = TrimSpace ln in
      if line = [] \<or> HasPrefix line ''#'' then Inr st
      else if HasSuffix line [backslash]
      then Inr (st\<lparr>multiline := True, buffer := buffer st @ TrimSuffix line [backslash]\<rparr>)
      else
        let line1 = (if multiline st then buffer st @ line else line);
            st1 = (if multiline st then st\<lparr>buffer := [], multiline := False\<rparr> else st)
        in case SplitN2 line1 of
             [k, v] \<Rightarrow>
               let key = TrimSpace k in
               if \<not> validEnvVar key then Inl (InvalidName key)
               else (case processValue (TrimSpace v) of
                       Inl e \<Rightarrow> Inl e
                     | Inr val \<Rightarrow>
                         Inr (st1\<lparr>vars := (vars st1)(key \<mapsto> expandEnvVars w val (vars st1))\<rparr>))
           | _ \<Rightarrow> Inr st1)"

fun scanLoop :: "world \<Rightarrow> loadState \<Rightarrow> string list \<Rightarrow> error + loadState" where
  "scanLoop w st [] = Inr st"
| "scanLoop w st (ln # lns) =
     (case loadLine w st ln of Inl e \<Rightarrow> Inl e | Inr st' \<Rightarrow> scanLoop w st' lns)"

definition initState :: loadState where
  "initState = \<lparr>vars = Map.empty, buffer = [], multiline = False\<rparr>"

text \<open>The deferred \<^verbatim>\<open>Close\<close> runs on every way out once the file is open, and a failing
  \<^verbatim>\<open>Close\<close> ends the process (\<^verbatim>\<open>log.Fatalf\<close>).\<close>

definition loadEnv :: "world \<Rightarrow> string \<Rightarrow> error + (string \<rightharpoonup> string)" where
  "loadEnv w filename =
     (case osOpen w (filepathClean w filename) of
        Inl err \<Rightarrow> if isNotExist err then Inl (DoesNotExist filename) else Inl (OpenError err)
      | Inr f \<Rightarrow>
          (case closeErr f of
             Some m \<Rightarrow> Inl (FatalClose m)
           | None \<Rightarrow>
               (case scanLoop w initState (scanLines f) of
                  Inl e \<Rightarrow> Inl e
                | Inr st \<Rightarrow>
                    (case scanErr f of Some m \<Rightarrow> Inl (ScanError m) | None \<Rightarrow> Inr (vars st)))))"

text \<open>The loop over \<^verbatim>\<open>paths\<close> in \<^verbatim>\<open>fillSpecification\<close>.\<close>

fun mergeFiles ::
  "world \<Rightarrow> (string \<rightharpoonup> string) \<Rightarrow> string list \<Rightarrow> error + (string \<rightharpoonup> string)" where
  "mergeFiles w envVars [] = Inr envVars"
| "mergeFiles w envVars (path # paths) =
     (case loadEnv w path of
        Inl err \<Rightarrow> Inl (wrap LoadingEnvFile err)
      | Inr fileVars \<Rightarrow> mergeFiles w (envVars ++ fileVars) paths)"

subsection \<open>getValueFromEnvOrFile\<close>

definition getValueFromEnvOrFile ::
  "world \<Rightarrow> structField \<Rightarrow> (string \<rightharpoonup> string) \<Rightarrow> error + string" where
  "getValueFromEnvOrFile w sf envVars =
     (let envTag = tagEnv sf in
      if envTag = [] then Inr []
      else
        case envVars envTag of
          Some val \<Rightarrow> Inr val
        | None \<Rightarrow>
            if Getenv w envTag \<noteq> [] then Inr (Getenv w envTag)
            else if tagRequired sf = ''true'' then Inl (MissingRequired envTag)
            else Inr (tagDefault sf))"

subsection \<open>setValue\<close>

text \<open>\<^verbatim>\<open>strconv.ParseUint(s, 10, 64)\<close>: the loop over the digits, with its two overflow
  tests; a character that is not a digit is a syntax error when the loop reaches it.\<close>

fun parseUintLoop :: "nat \<Rightarrow> string \<Rightarrow> num_error + nat" where
  "parseUintLoop n [] = Inr n"
| "parseUintLoop n (c # cs) =
     (if \<not> isDigit c then Inl ErrSyntax
      else if n \<ge> (2 ^ 64 - 1) div 10 + 1 then Inl ErrRange
      else
        let n1 = n * 10 + (of_char c - 48) in
        if n1 > 2 ^ 64 - 1 then Inl ErrRange else parseUintLoop n1 cs)"

text \<open>\<^verbatim>\<open>strconv.ParseInt(s, 10, 64)\<close>: an optional sign, then \<^verbatim>\<open>ParseUint\<close>, then the range
  of a signed 64-bit integer.\<close>

definition ParseInt64 :: "string \<Rightarrow> num_error + int" where
  "ParseInt64 s =
     (if s = [] then Inl ErrSyntax
      else
        let neg = (hd s = CHR ''-'');
            s1 = (if hd s = CHR ''+'' \<or> hd s = CHR ''-'' then tl s else s)
        in if s1 = [] then Inl ErrSyntax
           else
             case parseUintLoop 0 s1 of
               Inl ErrSyntax \<Rightarrow> Inl ErrSyntax
             | Inl ErrRange \<Rightarrow> Inl ErrRange
             | Inr un \<Rightarrow>
                 if \<not> neg \<and> un \<ge> 2 ^ 63 then Inl ErrRange
                 else if neg \<and> un > 2 ^ 63 then Inl ErrRange
                 else Inr (if neg then - int un else int un))"

text \<open>The width of each signed integer kind; \<^verbatim>\<open>int\<close> is taken as 64 bits.\<close>

fun bitSize :: "int_kind \<Rightarrow> nat" where
  "bitSize KInt = 64"
| "bitSize KInt8 = 8"
| "bitSize KInt16 = 16"
| "bitSize KInt32 = 32"
| "bitSize KInt64 = 64"

text \<open>\<^verbatim>\<open>reflect.Value.SetInt\<close> stores \<^verbatim>\<open>int8(x)\<close>, \<^verbatim>\<open>int16(x)\<close>, ...: the low bits of
  \<^verbatim>\<open>x\<close>, read as a signed number of the kind's width.\<close>

definition SetInt :: "int_kind \<Rightarrow> int \<Rightarrow> int" where
  "SetInt k x = signed_take_bit (bitSize k - 1) x"

definition ParseBool :: "string \<Rightarrow> error + bool" where
  "ParseBool s =
     (if s \<in> set [''1'', ''t'', ''T'', ''TRUE'', ''true'', ''True''] then Inr True
      else if s \<in> set [''0'', ''f'', ''F'', ''FALSE'', ''false'', ''False''] then Inr False
      else Inl (ParseBoolError s))"

text \<open>\<^verbatim>\<open>strings.Split(value, ",")\<close>.\<close>

fun Split :: "string \<Rightarrow> string list" where
  "Split [] = [[]]"
| "Split (c # cs) =
     (if c = CHR '','' then [] # Split cs
      else (case Split cs of x # xs \<Rightarrow> (c # x) # xs | [] \<Rightarrow> [[c]]))"

fun setValue :: "world \<Rightarrow> value \<Rightarrow> string \<Rightarrow> error + value"
  and setElems :: "world \<Rightarrow> value \<Rightarrow> string list \<Rightarrow> error + value list" where
  "setValue w (VString old) s = Inr (VString s)"
| "setValue w (VInt k old) s =
     (case ParseInt64 s of
        Inl e \<Rightarrow> Inl (ParseIntError s e)
      | Inr intVal \<Rightarrow> Inr (VInt k (SetInt k intVal)))"
| "setValue w (VDuration old) s =
     (case parseDuration w s of
        Inl m \<Rightarrow> Inl (LibError m)
      | Inr duration \<Rightarrow> Inr (VDuration duration))"
| "setValue w (VBool old) s =
     (case ParseBool s of Inl e \<Rightarrow> Inl e | Inr boolVal \<Rightarrow> Inr (VBool boolVal))"
| "setValue w (VSlice elemType old) s =
     (case setElems w elemType (Split s) of
        Inl e \<Rightarrow> Inl e
      | Inr elems \<Rightarrow> Inr (VSlice elemType elems))"
| "setValue w (VMap old) s =
     (case jsonUnmarshal w s of Inl m \<Rightarrow> Inl (LibError m) | Inr m \<Rightarrow> Inr (VMap m))"
| "setValue w (VMapOther ty) s =
     (case jsonUnmarshal w s of
        Inl m \<Rightarrow> Inl (LibError m)
      | Inr m \<Rightarrow>
          Inl (PanicReflect
                (''reflect.Set: value of type map[string]string is not assignable to type ''
                 @ ty)))"
| "setValue w (VStruct cp fs) s = Inl (UnsupportedType ''struct'')"
| "setValue w (VOther kind) s = Inl (UnsupportedType kind)"
| "setElems w elemType [] = Inr []"
| "setElems w elemType (elem # elems) =
     (case setValue w elemType (TrimSpace elem) of
        Inl e \<Rightarrow> Inl e
      | Inr v \<Rightarrow>
          (case setElems w elemType elems of Inl e \<Rightarrow> Inl e | Inr vs \<Rightarrow> Inr (v # vs)))"

subsection \<open>parseEnv\<close>

text \<open>\<open>parseEnvFields\<close> is the loop of \<^verbatim>\<open>parseEnv\<close> over the fields in declaration order,
  \<open>parseEnvField\<close> its body. For a field of kind struct the body calls \<^verbatim>\<open>parseEnv\<close> on the
  field, which is the same loop on the field's own fields. The record is returned only
  when no error occurred.\<close>

fun parseEnvFields ::
    "world \<Rightarrow> (string \<rightharpoonup> string) \<Rightarrow> (structField \<times> value) list
      \<Rightarrow> error + (structField \<times> value) list"
  and parseEnvField ::
    "world \<Rightarrow> (string \<rightharpoonup> string) \<Rightarrow> structField \<Rightarrow> value \<Rightarrow> error + value" where
  "parseEnvFields w envVars [] = Inr []"
| "parseEnvFields w envVars ((sf, field) # fs) =
     (case parseEnvField w envVars sf field of
        Inl e \<Rightarrow> Inl e
      | Inr field' \<Rightarrow>
          (case parseEnvFields w envVars fs of
             Inl e \<Rightarrow> Inl e
           | Inr fs' \<Rightarrow> Inr ((sf, field') # fs')))"
| "parseEnvField w envVars sf (VStruct cp fs) =
     (case parseEnvFields w envVars fs of
        Inl e \<Rightarrow> Inl e
      | Inr fs' \<Rightarrow>
          (case cp of
             None \<Rightarrow> Inr (VStruct cp fs')
           | Some ty \<Rightarrow>
               (case getValueFromEnvOrFile w sf envVars of
                  Inl e \<Rightarrow> Inl e
                | Inr envValue \<Rightarrow>
                    (case parseEnvMethod w ty envValue (VStruct cp fs') of
                       Inl m \<Rightarrow> Inl (CustomError m)
                     | Inr v \<Rightarrow> Inr v))))"
| "parseEnvField w envVars sf field =
     (case getValueFromEnvOrFile w sf envVars of
        Inl e \<Rightarrow> Inl e
      | Inr envValue \<Rightarrow>
          if envValue = [] then Inr field
          else (case setValue w field envValue of
                  Inl e \<Rightarrow> Inl (wrap (SettingField (fieldName sf)) e)
                | Inr field' \<Rightarrow> Inr field'))"

definition parseEnv :: "world \<Rightarrow> value \<Rightarrow> (string \<rightharpoonup> string) \<Rightarrow> error + value" where
  "parseEnv w cfg envVars =
     (case cfg of
        VStruct cp fs \<Rightarrow>
          (case parseEnvFields w envVars fs of
             Inl e \<Rightarrow> Inl e
           | Inr fs' \<Rightarrow> Inr (VStruct cp fs'))
      | _ \<Rightarrow> Inl (PanicReflect ''reflect: call of reflect.Value.NumField on non-struct Value''))"

subsection \<open>fillSpecification\<close>

definition fillSpecification :: "world \<Rightarrow> value \<Rightarrow> string list \<Rightarrow> error + value" where
  "fillSpecification w cfg paths =
     (case mergeFiles w Map.empty paths of
        Inl e \<Rightarrow> Inl e
      | Inr envVars \<Rightarrow>
          (case parseEnv w cfg envVars of
             Inl err \<Rightarrow> Inl (wrap FieldLoadEnvironment err)
           | Inr cfg' \<Rightarrow> Inr cfg'))"

subsection \<open>Kinds and a concrete world\<close>


text \<open>A concrete world for the evaluations below: three files, one path that cannot be
  opened for lack of permission, every other path missing; a process environment with one
  variable set to the empty string; a \<^verbatim>\<open>ParseEnv\<close> method that rejects the empty string.\<close>

definition exampleWorld :: world where
  "exampleWorld =
     \<lparr>lookupEnv = [''HOME'' \<mapsto> ''/root'', ''EMPTY'' \<mapsto> []],
      filepathClean = (\<lambda>p. p),
      osOpen = (\<lambda>p.
        if p = ''a.env'' then Inr \<lparr>scanLines = [''X=foo''], scanErr = None, closeErr = None\<rparr>
        else if p = ''b.env'' then Inr \<lparr>scanLines = [''Y=${X}''], scanErr = None, closeErr = None\<rparr>
        else if p = ''c.env''
          then Inr \<lparr>scanLines = [''X=foo'', ''Z=a${X}b''], scanErr = None, closeErr = None\<rparr>
        else if p = ''locked.env'' then Inl (OsError False ''open locked.env: permission denied'')
        else Inl (OsError True (''open '' @ p @ '': no such file or directory''))),
      parseDuration = (\<lambda>s. if s = ''1h'' then Inr 3600000000000 else Inl ''time: invalid duration''),
      jsonUnmarshal = (\<lambda>s. if s = ''{}'' then Inr [] else Inl ''invalid character''),
      parseEnvMethod = (\<lambda>ty s v. if s = [] then Inl ''empty value'' else Inr v)\<rparr>"

section \<open>Auxiliary lemmas\<close>

declare expandEnvVars.simps [simp del]

lemma isNameChar_facts:
  "isNameChar c \<Longrightarrow> \<not> isSpace c \<and> c \<noteq> CHR ''='' \<and> c \<noteq> CHR ''#'' \<and> c \<noteq> backslash
     \<and> c \<noteq> dquote \<and> c \<noteq> squote \<and> c \<noteq> CHR ''$'' \<and> c \<noteq> CHR ''}'' \<and> c \<noteq> CHR ''{''"
  by (auto simp: isNameChar_def isLetter_def isDigit_def isSpace_def backslash_def dquote_def
      squote_def)

lemma isNameStart_isNameChar: "isNameStart c \<Longrightarrow> isNameChar c"
  by (auto simp: isNameStart_def isNameChar_def)

lemma validEnvVar_chars: "validEnvVar k \<Longrightarrow> k \<noteq> [] \<and> list_all isNameChar k"
  by (cases k) (auto simp: validEnvVar_def isNameStart_isNameChar)

lemma TrimSpace_id: "s \<noteq> [] \<Longrightarrow> \<not> isSpace (hd s) \<Longrightarrow> \<not> isSpace (last s) \<Longrightarrow> TrimSpace s = s"
proof -
  assume ne: "s \<noteq> []" and h: "\<not> isSpace (hd s)" and l: "\<not> isSpace (last s)"
  from ne h have 1: "dropWhile isSpace s = s" by (cases s) auto
  from ne l have 2: "dropWhile isSpace (rev s) = rev s"
    by (cases "rev s") (auto simp: last_rev[symmetric] hd_rev)
  show ?thesis by (simp add: TrimSpace_def 1 2)
qed

lemma TrimSpace_Nil: "TrimSpace [] = []"
  by (simp add: TrimSpace_def)

lemma matchEnvVar_ref:
  assumes "validEnvVar nm"
  shows "matchEnvVar (''${'' @ nm @ ''}'' @ rest) = Some (''${'' @ nm @ ''}'', rest)"
proof -
  from assms obtain c cs where nm: "nm = c # cs" and c: "isNameStart c" and cs: "list_all isNameChar cs"
    by (cases nm) (auto simp: validEnvVar_def)
  have nb: "\<not> isNameChar (CHR ''}'')" using isNameChar_facts by blast
  from cs have d: "dropWhile isNameChar (cs @ CHR ''}'' # rest) = CHR ''}'' # rest"
    using nb by (simp add: list_all_iff dropWhile_append)
  from cs have t: "takeWhile isNameChar (cs @ CHR ''}'' # rest) = cs"
    using nb by (simp add: list_all_iff takeWhile_append)
  show ?thesis by (simp add: matchEnvVar_def nm c d t)
qed

lemma matchEnvVar_no_dollar: "hd s \<noteq> CHR ''$'' \<Longrightarrow> matchEnvVar s = None"
  by (auto simp: matchEnvVar_def split: list.splits)

lemma expandEnvVars_Nil: "expandEnvVars w [] m = []"
  by (simp add: expandEnvVars.simps)

lemma expandEnvVars_match:
  "matchEnvVar v = Some (mt, rest) \<Longrightarrow>
     expandEnvVars w v m = expandMatch w m mt @ expandEnvVars w rest m"
proof -
  assume a: "matchEnvVar v = Some (mt, rest)"
  then obtain c cs where v: "v = c # cs"
    by (cases v) (auto simp: matchEnvVar_def)
  show ?thesis
    using a unfolding v by (subst expandEnvVars.simps) simp
qed

lemma expandEnvVars_nomatch:
  "matchEnvVar (c # cs) = None \<Longrightarrow> expandEnvVars w (c # cs) m = c # expandEnvVars w cs m"
  by (subst expandEnvVars.simps) simp

lemma expandEnvVars_plain: "CHR ''$'' \<notin> set s \<Longrightarrow> expandEnvVars w s m = s"
proof (induction s)
  case Nil
  then show ?case by (simp add: expandEnvVars_Nil)
next
  case (Cons c s)
  then have "matchEnvVar (c # s) = None" by (intro matchEnvVar_no_dollar) auto
  with Cons show ?case by (simp add: expandEnvVars_nomatch)
qed

lemma expandMatch_ref:
  "expandMatch w m (''${'' @ nm @ ''}'') =
     (case m nm of Some v \<Rightarrow> v
      | None \<Rightarrow> (case lookupEnv w nm of Some v \<Rightarrow> v | None \<Rightarrow> ''${'' @ nm @ ''}''))"
  by (simp add: expandMatch_def split: option.splits)

lemma expandEnvVars_ref:
  assumes "validEnvVar nm"
  shows "expandEnvVars w (''${'' @ nm @ ''}'' @ rest) m =
           expandMatch w m (''${'' @ nm @ ''}'') @ expandEnvVars w rest m"
  by (rule expandEnvVars_match[OF matchEnvVar_ref[OF assms]])

lemma expandEnvVars_embedded:
  assumes "validEnvVar nm" "CHR ''$'' \<notin> set pre"
  shows "expandEnvVars w (pre @ ''${'' @ nm @ ''}'' @ rest) m =
           pre @ expandMatch w m (''${'' @ nm @ ''}'') @ expandEnvVars w rest m"
  using assms(2)
proof (induction pre)
  case Nil
  then show ?case using expandEnvVars_ref[OF assms(1)] by simp
next
  case (Cons c pre)
  then have "matchEnvVar (c # pre @ ''${'' @ nm @ ''}'' @ rest) = None"
    by (intro matchEnvVar_no_dollar) auto
  then have "expandEnvVars w (c # pre @ ''${'' @ nm @ ''}'' @ rest) m =
      c # expandEnvVars w (pre @ ''${'' @ nm @ ''}'' @ rest) m"
    by (rule expandEnvVars_nomatch)
  with Cons show ?case by simp
qed

lemma replaceEscapes_plain: "backslash \<notin> set s \<Longrightarrow> replaceEscapes s = s"
  by (induction s rule: replaceEscapes.induct) auto

lemma processValue_plain:
  "backslash \<notin> set s \<Longrightarrow> s \<noteq> [] \<Longrightarrow> hd s \<noteq> dquote \<Longrightarrow> hd s \<noteq> squote \<Longrightarrow> processValue s = Inr s"
  by (cases s) (auto simp: processValue_def replaceEscapes_plain index_def Let_def)

lemma scanLoop_append:
  "scanLoop w st (xs @ ys) =
     (case scanLoop w st xs of Inl e \<Rightarrow> Inl e | Inr st' \<Rightarrow> scanLoop w st' ys)"
  by (induction xs arbitrary: st) (auto split: sum.splits)


lemma map_add_twice: "(acc ++ m) ++ m = acc ++ m"
  by (rule ext) (simp add: map_add_def split: option.splits)


lemma HasSuffix_single: "HasSuffix s [c] \<longleftrightarrow> s \<noteq> [] \<and> last s = c"
proof (cases s rule: rev_cases)
  case Nil
  then show ?thesis by (simp add: HasSuffix_def)
next
  case (snoc ys y)
  then show ?thesis by (auto simp: HasSuffix_def)
qed

lemma HasPrefix_single: "HasPrefix s [c] \<longleftrightarrow> s \<noteq> [] \<and> hd s = c"
  by (cases s) (auto simp: HasPrefix_def)

lemma SplitN2_key:
  "CHR ''='' \<notin> set k \<Longrightarrow> SplitN2 (k @ CHR ''='' # v) = [k, v]"
  by (simp add: SplitN2_def takeWhile_append dropWhile_append)

lemma name_no_eq: "list_all isNameChar k \<Longrightarrow> CHR ''='' \<notin> set k"
  using isNameChar_facts by (auto simp: list_all_iff)

lemma loadLine_assign:
  assumes key: "validEnvVar key" and ml: "\<not> multiline st"
    and v: "v \<noteq> []" "\<not> isSpace (hd v)" "\<not> isSpace (last v)" "last v \<noteq> backslash"
    and pv: "processValue v = Inr pv"
  shows "loadLine w st (key @ CHR ''='' # v) =
           Inr (st\<lparr>vars := (vars st)(key \<mapsto> expandEnvVars w pv (vars st))\<rparr>)"
proof -
  from key obtain c cs where k: "key = c # cs" and c: "isNameStart c"
    by (cases key) (auto simp: validEnvVar_def)
  have kc: "key \<noteq> []" "list_all isNameChar key" using validEnvVar_chars[OF key] by auto
  have hk: "\<not> isSpace (hd key)" "hd key \<noteq> CHR ''#''"
    using isNameChar_facts[OF isNameStart_isNameChar[OF c]] by (auto simp: k)
  have lk: "\<not> isSpace (last key)"
    using kc isNameChar_facts[of "last key"] by (auto simp: list_all_iff)
  let ?line = "key @ CHR ''='' # v"
  have t1: "TrimSpace ?line = ?line"
    using hk v kc by (intro TrimSpace_id) auto
  have t2: "TrimSpace key = key" using kc hk lk by (intro TrimSpace_id) auto
  have t3: "TrimSpace v = v" using v by (intro TrimSpace_id) auto
  have p: "\<not> HasPrefix ?line ''#''" using hk kc by (simp add: HasPrefix_single)
  have s: "\<not> HasSuffix ?line [backslash]" using v by (simp add: HasSuffix_single)
  have sp: "SplitN2 ?line = [key, v]" using name_no_eq[OF kc(2)] by (rule SplitN2_key)
  show ?thesis
    unfolding loadLine_def using ml key by (simp add: t1 t2 t3 p s sp pv Let_def del: append.simps)
qed

lemma ref_value:
  assumes nm: "validEnvVar nm" and pre: "list_all isNameChar pre" and post: "list_all isNameChar post"
  defines "v \<equiv> pre @ ''${'' @ nm @ ''}'' @ post"
  shows "v \<noteq> []" "\<not> isSpace (hd v)" "\<not> isSpace (last v)" "last v \<noteq> backslash"
    "processValue v = Inr v"
    "expandEnvVars w v m = pre @ expandMatch w m (''${'' @ nm @ ''}'') @ post"
proof -
  have nmc: "list_all isNameChar nm" using validEnvVar_chars[OF nm] by simp
  show ne: "v \<noteq> []" by (simp add: v_def)
  have hd: "hd v = (if pre = [] then CHR ''$'' else hd pre)" by (simp add: v_def hd_append)
  have la: "last v = (if post = [] then CHR ''}'' else last post)" by (simp add: v_def)
  have hpre: "pre \<noteq> [] \<Longrightarrow> isNameChar (hd pre)" using pre by (cases pre) auto
  have lpost: "post \<noteq> [] \<Longrightarrow> isNameChar (last post)" using post by (auto simp: list_all_iff)
  show "\<not> isSpace (hd v)" using hpre isNameChar_facts[of "hd pre"] by (auto simp: hd isSpace_def)
  show "\<not> isSpace (last v)" using lpost isNameChar_facts[of "last post"] by (auto simp: la isSpace_def)
  show "last v \<noteq> backslash" using lpost isNameChar_facts[of "last post"] by (auto simp: la backslash_def)
  have nb: "backslash \<notin> set v"
    using pre post nmc isNameChar_facts by (auto simp: v_def list_all_iff backslash_def)
  have hq: "hd v \<noteq> dquote" "hd v \<noteq> squote"
    using hpre isNameChar_facts[of "hd pre"] by (auto simp: hd dquote_def squote_def)
  show "processValue v = Inr v" using nb ne hq by (rule processValue_plain)
  have d1: "CHR ''$'' \<notin> set pre" using pre isNameChar_facts by (auto simp: list_all_iff)
  have d2: "CHR ''$'' \<notin> set post" using post isNameChar_facts by (auto simp: list_all_iff)
  show "expandEnvVars w v m = pre @ expandMatch w m (''${'' @ nm @ ''}'') @ post"
    unfolding v_def using expandEnvVars_embedded[OF nm d1, of w post m] expandEnvVars_plain[OF d2]
    by simp
qed

lemma loadLine_ref:
  assumes "validEnvVar key" "\<not> multiline st" "validEnvVar nm" "list_all isNameChar pre"
    "list_all isNameChar post"
  shows "loadLine w st (key @ ''='' @ pre @ ''${'' @ nm @ ''}'' @ post) =
           Inr (st\<lparr>vars := (vars st)(key \<mapsto>
                  pre @ expandMatch w (vars st) (''${'' @ nm @ ''}'') @ post)\<rparr>)"
  using loadLine_assign[OF assms(1,2) ref_value(1-5)[OF assms(3-5)], of w]
    ref_value(6)[OF assms(3-5), of w "vars st"]
  by simp

text \<open>The definitions that evaluate the loader on a concrete line.\<close>

lemmas loader_defs = processValue_def index_def slice_def dquote_def squote_def loadLine_def
      TrimSpace_def isSpace_def HasPrefix_def HasSuffix_def TrimSuffix_def backslash_def SplitN2_def
      validEnvVar_def isNameStart_def isNameChar_def isLetter_def isDigit_def initState_def
      matchEnvVar_def expandMatch_def expandEnvVars.simps

section \<open>The claims\<close>

subsection \<open>C9: processValue on a lone quote character\<close>

text \<open>
  C9 says that value post-processing returns a result for every input string, a
  one-character string made of a single quote character included. On such a string the
  first and the last character are the same quote, so the code takes \<^verbatim>\<open>value[1 : len(value)-1]\<close>,
  which is \<^verbatim>\<open>value[1:0]\<close>: the run time panics with slice bounds out of range. The loader
  reaches it on the line \<^verbatim>\<open>A="\<close>.
\<close>

theorem processValue_lone_quote_panics:
  "processValue [dquote] = Inl (PanicSliceBounds 1 0)
   \<and> processValue [squote] = Inl (PanicSliceBounds 1 0)
   \<and> loadLine w initState (''A='' @ [dquote]) = Inl (PanicSliceBounds 1 0)"
  by (simp add: processValue_def index_def slice_def dquote_def squote_def loadLine_def
      TrimSpace_def isSpace_def HasPrefix_def HasSuffix_def backslash_def SplitN2_def
      validEnvVar_def isNameStart_def isNameChar_def isLetter_def isDigit_def initState_def)

subsection \<open>C4: integers narrower than 64 bits\<close>

text \<open>
  C4 says that a signed-integer field is parsed at its declared width, so that a numeral
  that does not fit is a conversion error. The code parses every signed kind with
  \<^verbatim>\<open>strconv.ParseInt(value, 10, 64)\<close> and stores the result with \<^verbatim>\<open>SetInt\<close>, which keeps the
  low bits: the numeral 300 in an \<^verbatim>\<open>int8\<close> field is stored as 44, with no error.
\<close>

theorem setValue_int8_stores_truncated:
  "setValue w (VInt KInt8 old) ''300'' = Inr (VInt KInt8 44)
   \<and> parseEnvField w [''N'' \<mapsto> ''300'']
        \<lparr>fieldName = ''N'', tagEnv = ''N'', tagDefault = [], tagRequired = []\<rparr> (VInt KInt8 0)
      = Inr (VInt KInt8 44)"
  by (simp add: ParseInt64_def SetInt_def isDigit_def getValueFromEnvOrFile_def)

subsection \<open>C2: the custom conversion capability and the empty value\<close>

text \<open>
  C2 says that a nested record with the capability is handed the resolved string only when
  that string is not empty. The code calls \<^verbatim>\<open>customParser.ParseEnv(envValue)\<close> with whatever
  was resolved: for a field that is not required, has no default and is set nowhere, the
  method receives the empty string, and when it rejects it population fails.
\<close>

theorem parseEnv_custom_receives_empty:
  "parseEnv exampleWorld
     (VStruct None
       [(\<lparr>fieldName = ''Db'', tagEnv = ''DB'', tagDefault = [], tagRequired = []\<rparr>,
         VStruct (Some ''DbConf'') [])])
     Map.empty
   = Inl (CustomError ''empty value'')"
  by (simp add: parseEnv_def getValueFromEnvOrFile_def Getenv_def exampleWorld_def)

subsection \<open>C8: loading the same file twice\<close>

text \<open>
  C8: for every file, loading it twice and merging the two results gives the mapping that
  loading it once gives. Whatever was merged before, the paths \<open>[p, p]\<close> and \<open>[p]\<close> give the
  same outcome (the same mapping, or the same error), and so does the whole of
  \<^verbatim>\<open>fillSpecification\<close>.
\<close>

theorem mergeFiles_same_file_twice:
  "mergeFiles w acc [p, p] = mergeFiles w acc [p]
   \<and> fillSpecification w cfg [p, p] = fillSpecification w cfg [p]"
proof -
  have twice: "mergeFiles w m [p, p] = mergeFiles w m [p]" for m
    by (simp add: map_add_twice split: sum.splits)
  have "fillSpecification w cfg [p, p] = fillSpecification w cfg [p]"
    unfolding fillSpecification_def by (simp only: twice)
  with twice show ?thesis by blast
qed

subsection \<open>C7: a missing file\<close>

text \<open>
  C7: opening a file that does not exist gives the error "<path> does not exist", with the
  path as the caller wrote it; any other failure of \<^verbatim>\<open>os.Open\<close> is returned as it is, and
  the two are different errors.
\<close>

theorem loadEnv_missing_file_distinct:
  assumes "osOpen w (filepathClean w missing) = Inl e1" and "isNotExist e1"
    and "osOpen w (filepathClean w other) = Inl e2" and "\<not> isNotExist e2"
  shows "loadEnv w missing = Inl (DoesNotExist missing)
    \<and> errorText (DoesNotExist missing) = missing @ '' does not exist''
    \<and> loadEnv w other = Inl (OpenError e2)
    \<and> loadEnv w other \<noteq> loadEnv w missing"
  using assms by (simp add: loadEnv_def)

theorem loadEnv_missing_file_distinct_witness:
  "loadEnv exampleWorld ''missing.env'' = Inl (DoesNotExist ''missing.env'')
   \<and> errorText (DoesNotExist ''missing.env'') = ''missing.env does not exist''
   \<and> loadEnv exampleWorld ''locked.env''
       = Inl (OpenError (OsError False ''open locked.env: permission denied''))
   \<and> loadEnv exampleWorld ''locked.env'' \<noteq> loadEnv exampleWorld ''missing.env''"
proof -
  have 1: "osOpen exampleWorld (filepathClean exampleWorld ''missing.env'')
             = Inl (OsError True ''open missing.env: no such file or directory'')"
    by (simp add: exampleWorld_def)
  have 2: "osOpen exampleWorld (filepathClean exampleWorld ''locked.env'')
             = Inl (OsError False ''open locked.env: permission denied'')"
    by (simp add: exampleWorld_def)
  show ?thesis
    using loadEnv_missing_file_distinct [OF 1 _ 2] by simp
qed

subsection \<open>C1: references across the files of one load\<close>




subsection \<open>C3: comments and blank lines during a continuation\<close>

text \<open>
  C3 says that comment detection happens on non-continued lines only, so that a line
  starting with \<^verbatim>\<open>#\<close> that arrives during a backslash continuation is part of the logical
  line. The loop of \<^verbatim>\<open>loadEnv\<close> tests every trimmed line for \<^verbatim>\<open>#\<close> before it looks at the
  continuation: with the buffer holding \<^verbatim>\<open>A=1\<close>, the line \<^verbatim>\<open>#c\<close> is skipped and the next
  line \<^verbatim>\<open>2\<close> ends the logical line \<^verbatim>\<open>A=12\<close>.
\<close>

theorem comment_inside_continuation_counterexample:
  "loadLine exampleWorld \<lparr>vars = Map.empty, buffer = ''A=1'', multiline = True\<rparr> ''#c''
     = Inr \<lparr>vars = Map.empty, buffer = ''A=1'', multiline = True\<rparr>
   \<and> scanLoop exampleWorld initState [''A=1'' @ [backslash], ''#c'', ''2'']
     = Inr \<lparr>vars = [''A'' \<mapsto> ''12''], buffer = [], multiline = False\<rparr>
   \<and> scanLoop exampleWorld initState [''A=1'' @ [backslash], ''#c'', ''2'']
     \<noteq> Inr \<lparr>vars = [''A'' \<mapsto> ''1#c2''], buffer = [], multiline = False\<rparr>"
  by (auto simp add: loader_defs exampleWorld_def dest: map_upd_eqD1)

text \<open>
  C3, amended: the parser skips every line that is empty after trimming or starts with
  \<^verbatim>\<open>#\<close> after trimming, whether or not a backslash continuation is being accumulated: the
  line leaves the mapping, the buffer and the continuation flag as they are, so the file
  without that line loads to the same result.
\<close>

theorem comment_lines_skipped:
  assumes "TrimSpace ln = [] \<or> HasPrefix (TrimSpace ln) ''#''"
  shows "loadLine w st ln = Inr st
    \<and> scanLoop w st (before @ ln # after) = scanLoop w st (before @ after)"
proof -
  have skip: "loadLine w s ln = Inr s" for s
    using assms by (auto simp: loadLine_def)
  have "scanLoop w st (before @ ln # after) = scanLoop w st (before @ after)"
    by (simp add: scanLoop_append skip split: sum.splits)
  with skip show ?thesis by simp
qed

theorem comment_lines_skipped_witness:
  "(TrimSpace ''  #c'' = [] \<or> HasPrefix (TrimSpace ''  #c'') ''#'')
   \<and> loadLine exampleWorld \<lparr>vars = Map.empty, buffer = ''A=1'', multiline = True\<rparr> ''  #c''
       = Inr \<lparr>vars = Map.empty, buffer = ''A=1'', multiline = True\<rparr>
   \<and> scanLoop exampleWorld initState ([''A=1'' @ [backslash]] @ ''  #c'' # [''2''])
       = scanLoop exampleWorld initState ([''A=1'' @ [backslash]] @ [''2''])"
proof -
  have h: "TrimSpace ''  #c'' = [] \<or> HasPrefix (TrimSpace ''  #c'') ''#''"
    by (simp add: TrimSpace_def isSpace_def HasPrefix_def)
  show ?thesis
    using h
      comment_lines_skipped [OF h, of exampleWorld
        "\<lparr>vars = Map.empty, buffer = ''A=1'', multiline = True\<rparr>"]
      comment_lines_skipped [OF h, of exampleWorld initState "[''A=1'' @ [backslash]]" "[''2'']"]
    by blast
qed

subsection \<open>C5: required fields and defaults\<close>



subsection \<open>C6: the expansion examples\<close>

text \<open>
  C6: with \<^verbatim>\<open>X\<close> defined earlier in the same file as \<^verbatim>\<open>foo\<close>, the value \<^verbatim>\<open>${X}bar\<close> becomes
  \<^verbatim>\<open>foobar\<close>; a reference \<^verbatim>\<open>${Y}\<close> with \<^verbatim>\<open>Y\<close> neither in the mapping nor in the process
  environment stays \<^verbatim>\<open>${Y}\<close>. Stated for \<^verbatim>\<open>expandEnvVars\<close> on any mapping, and for the loader
  on the files \<^verbatim>\<open>X=foo, K=${X}bar\<close> and \<^verbatim>\<open>K=${Y}\<close>, for any valid names.
\<close>

theorem expansion_defined_and_undefined:
  assumes "validEnvVar X" and "validEnvVar K" and "validEnvVar Y"
    and "envVars X = Some xval" and "others Y = None" and "lookupEnv w Y = None"
  shows "expandEnvVars w (''${'' @ X @ ''}bar'') envVars = xval @ ''bar''
    \<and> expandEnvVars w (''${'' @ Y @ ''}'') others = ''${'' @ Y @ ''}''
    \<and> scanLoop w initState [X @ ''=foo'', K @ ''=${'' @ X @ ''}bar'']
        = Inr \<lparr>vars = [X \<mapsto> ''foo'', K \<mapsto> ''foobar''], buffer = [], multiline = False\<rparr>
    \<and> scanLoop w initState [K @ ''=${'' @ Y @ ''}'']
        = Inr \<lparr>vars = [K \<mapsto> ''${'' @ Y @ ''}''], buffer = [], multiline = False\<rparr>"
proof -
  have bar: "list_all isNameChar ''bar''" and foo: "list_all isNameChar ''foo''"
    and nil: "list_all isNameChar []"
    by (simp_all add: isNameChar_def isLetter_def isDigit_def)
  have 1: "expandEnvVars w (''${'' @ X @ ''}bar'') envVars = xval @ ''bar''"
    using ref_value(6)[OF assms(1) nil bar, of w envVars] assms(4)
    by (simp add: expandMatch_ref del: append.simps) simp
  have 2: "expandEnvVars w (''${'' @ Y @ ''}'') others = ''${'' @ Y @ ''}''"
    using ref_value(6)[OF assms(3) nil nil, of w others] assms(5,6)
    by (simp add: expandMatch_ref del: append.simps) simp
  have pf: "processValue ''foo'' = Inr ''foo''"
    by (simp add: processValue_def index_def dquote_def squote_def backslash_def)
  have l1: "loadLine w initState (X @ ''=foo'')
              = Inr \<lparr>vars = [X \<mapsto> ''foo''], buffer = [], multiline = False\<rparr>"
    using loadLine_assign[OF assms(1), of initState "''foo''" "''foo''" w] pf
    by (simp add: initState_def isSpace_def backslash_def expandEnvVars_plain)
  have l2: "loadLine w \<lparr>vars = [X \<mapsto> ''foo''], buffer = [], multiline = False\<rparr>
               (K @ ''=${'' @ X @ ''}bar'')
              = Inr \<lparr>vars = [X \<mapsto> ''foo'', K \<mapsto> ''foobar''], buffer = [], multiline = False\<rparr>"
    using loadLine_ref[OF assms(2) _ assms(1) nil bar,
        of "\<lparr>vars = [X \<mapsto> ''foo''], buffer = [], multiline = False\<rparr>" w]
    by (simp add: expandMatch_ref del: append.simps) simp
  have l3: "loadLine w initState (K @ ''=${'' @ Y @ ''}'')
              = Inr \<lparr>vars = [K \<mapsto> ''${'' @ Y @ ''}''], buffer = [], multiline = False\<rparr>"
    using loadLine_ref[OF assms(2) _ assms(3) nil nil, of initState w] assms(6)
    by (simp add: expandMatch_ref initState_def del: append.simps) simp
  show ?thesis using 1 2 l1 l2 l3 by simp
qed

theorem expansion_defined_and_undefined_witness:
  "expandEnvVars exampleWorld ''${X}bar'' [''X'' \<mapsto> ''foo''] = ''foobar''
   \<and> expandEnvVars exampleWorld ''${Y}'' Map.empty = ''${Y}''
   \<and> scanLoop exampleWorld initState [''X=foo'', ''Z=${X}bar'']
       = Inr \<lparr>vars = [''X'' \<mapsto> ''foo'', ''Z'' \<mapsto> ''foobar''], buffer = [], multiline = False\<rparr>
   \<and> scanLoop exampleWorld initState [''Z=${Y}'']
       = Inr \<lparr>vars = [''Z'' \<mapsto> ''${Y}''], buffer = [], multiline = False\<rparr>"
proof -
  have n: "validEnvVar ''X''" "validEnvVar ''Z''" "validEnvVar ''Y''"
    by (simp_all add: validEnvVar_def isNameStart_def isNameChar_def isLetter_def isDigit_def)
  have x: "[''X'' \<mapsto> ''foo''] ''X'' = Some ''foo''" by simp
  have y: "Map.empty ''Y'' = None" by simp
  have e: "lookupEnv exampleWorld ''Y'' = None" by (simp add: exampleWorld_def)
  show ?thesis
    using expansion_defined_and_undefined
      [where X = "''X''" and K = "''Z''" and Y = "''Y''" and envVars = "[''X'' \<mapsto> ''foo'']"
        and xval = "''foo''" and others = Map.empty and w = exampleWorld]
      n e
    by simp
qed

subsection \<open>C10: the empty string in the process environment and in the file\<close>



end
